theory Spec2Isabelle
  imports Complex_Main "HOL-Library.AList"
begin

section \<open>Python values, exceptions and the library operations the monitor uses\<close>

text \<open>
  The monitor (\<open>paxg_monitor.py\<close>) works on the values that JSON decoding produces.
  They are modelled by \<open>pyval\<close>: \<open>PNone\<close> is Python's \<open>None\<close> (JSON \<open>null\<close>),
  a dict is an association list in insertion order. Numbers are rationals: a \<open>Decimal\<close>
  and the \<open>float\<close> made from it at the output boundary are both read as the exact
  rational they denote, so the rounding of the decimal context (28 significant digits)
  and of binary floating point is outside the model, as are NaN and the infinities.
\<close>

datatype pyval =
    PNone
  | PBool bool
  | PNum rat
  | PStr string
  | PList "pyval list"
  | PDict "(string \<times> pyval) list"

text \<open>The exceptions are all subclasses of \<open>Exception\<close>, the class \<open>fetch_all_data\<close> tests for.\<close>

datatype exn =
    TypeError
  | ValueError
  | KeyError
  | IndexError
  | AttributeError
  | InvalidOperation
  | OSError
  | ClientConnectionError
  | ClientResponseError nat
  | ContentTypeError

text \<open>Sequencing of two computations that may raise: the first exception wins.\<close>

definition and_then :: "exn + 'a \<Rightarrow> ('a \<Rightarrow> exn + 'b) \<Rightarrow> exn + 'b" where
  "and_then r f = (case r of Inl e \<Rightarrow> Inl e | Inr v \<Rightarrow> f v)"

text \<open>
  The conversions of strings to numbers (\<open>Decimal(s)\<close> and \<open>float(s)\<close>) belong to the
  Python library; the model takes them as parameters.
\<close>

record pylib =
  Decimal_str :: "string \<Rightarrow> exn + rat"
  float_str :: "string \<Rightarrow> exn + rat"

text \<open>Truth value testing (\<open>if x\<close>, \<open>x or y\<close>, \<open>not x\<close>).\<close>

fun truthy :: "pyval \<Rightarrow> bool" where
  "truthy PNone = False"
| "truthy (PBool b) = b"
| "truthy (PNum r) = (r \<noteq> 0)"
| "truthy (PStr s) = (s \<noteq> [])"
| "truthy (PList xs) = (xs \<noteq> [])"
| "truthy (PDict kvs) = (kvs \<noteq> [])"

definition py_or :: "pyval \<Rightarrow> pyval \<Rightarrow> pyval" where
  "py_or a b = (if truthy a then a else b)"

text \<open>\<open>d.get(key, default)\<close>: only a dict has the method.\<close>

fun dict_get :: "pyval \<Rightarrow> string \<Rightarrow> pyval \<Rightarrow> exn + pyval" where
  "dict_get (PDict kvs) k d = Inr (case map_of kvs k of Some v \<Rightarrow> v | None \<Rightarrow> d)"
| "dict_get _ k d = Inl AttributeError"

text \<open>\<open>x[i]\<close> for a non-negative integer \<open>i\<close>, and \<open>len(x)\<close>.\<close>

fun subscript :: "pyval \<Rightarrow> nat \<Rightarrow> exn + pyval" where
  "subscript (PList xs) i = (if i < length xs then Inr (xs ! i) else Inl IndexError)"
| "subscript (PStr s) i = (if i < length s then Inr (PStr [s ! i]) else Inl IndexError)"
| "subscript (PDict kvs) i = Inl KeyError"
| "subscript _ i = Inl TypeError"

fun len :: "pyval \<Rightarrow> exn + nat" where
  "len (PList xs) = Inr (length xs)"
| "len (PStr s) = Inr (length s)"
| "len (PDict kvs) = Inr (length kvs)"
| "len _ = Inl TypeError"

text \<open>The items a \<open>for\<close> loop or a tuple unpacking draws from a value.\<close>

fun iter_items :: "pyval \<Rightarrow> exn + pyval list" where
  "iter_items (PList xs) = Inr xs"
| "iter_items (PStr s) = Inr (map (\<lambda>c. PStr [c]) s)"
| "iter_items (PDict kvs) = Inr (map (\<lambda>kv. PStr (fst kv)) kvs)"
| "iter_items _ = Inl TypeError"

text \<open>\<open>price, qty = level\<close>: exactly two items, else \<open>ValueError\<close>.\<close>

definition unpack_pair :: "pyval \<Rightarrow> exn + (pyval \<times> pyval)" where
  "unpack_pair v =
     and_then (iter_items v)
       (\<lambda>items. case items of [a, b] \<Rightarrow> Inr (a, b) | _ \<Rightarrow> Inl ValueError)"

text \<open>\<open>Decimal(str(x))\<close> and \<open>float(x)\<close>.\<close>

fun Decimal_of :: "pylib \<Rightarrow> pyval \<Rightarrow> exn + rat" where
  "Decimal_of lib (PNum r) = Inr r"
| "Decimal_of lib (PStr s) = Decimal_str lib s"
| "Decimal_of lib _ = Inl InvalidOperation"

fun float_of :: "pylib \<Rightarrow> pyval \<Rightarrow> exn + rat" where
  "float_of lib (PNum r) = Inr r"
| "float_of lib (PStr s) = float_str lib s"
| "float_of lib (PBool b) = Inr (if b then 1 else 0)"
| "float_of lib _ = Inl TypeError"

section \<open>The depth pricer: \<open>calculate_orderbook_spread\<close>\<close>

record quote =
  bid_price :: rat
  ask_price :: rat
  spread :: rat
  mid_price :: rat

text \<open>
  One side's loop (source lines 116-126 and 136-146). The accumulators are
  \<open>(qty_sum, value_sum)\<close>. Each iteration unpacks the level and converts both fields
  before it tests \<open>remaining\<close>, so a malformed level raises even where the loop would stop.
\<close>

fun walk_side :: "pylib \<Rightarrow> rat \<Rightarrow> pyval list \<Rightarrow> rat \<times> rat \<Rightarrow> exn + (rat \<times> rat)" where
  "walk_side lib target_quantity [] acc = Inr acc"
| "walk_side lib target_quantity (lvl # rest) acc =
     and_then (unpack_pair lvl) (\<lambda>(p, q).
     and_then (Decimal_of lib p) (\<lambda>price.
     and_then (Decimal_of lib q) (\<lambda>qty.
       let remaining = target_quantity - fst acc in
       if remaining \<le> 0 then Inr acc
       else
         let fill_qty = min qty remaining in
         walk_side lib target_quantity rest
           (fst acc + fill_qty, snd acc + fill_qty * price))))"

definition avg_price :: "rat \<times> rat \<Rightarrow> rat" where
  "avg_price acc = (if fst acc > 0 then snd acc / fst acc else 0)"

definition calculate_orderbook_spread :: "pylib \<Rightarrow> pyval \<Rightarrow> rat \<Rightarrow> exn + quote" where
  "calculate_orderbook_spread lib orderbook target_quantity =
     and_then (dict_get orderbook ''bids'' (PList [])) (\<lambda>bids.
     and_then (dict_get orderbook ''asks'' (PList [])) (\<lambda>asks.
     and_then (iter_items bids) (\<lambda>bid_levels.
     and_then (walk_side lib target_quantity bid_levels (0, 0)) (\<lambda>bid_acc.
     let bid_avg_price = avg_price bid_acc in
     and_then (iter_items asks) (\<lambda>ask_levels.
     and_then (walk_side lib target_quantity ask_levels (0, 0)) (\<lambda>ask_acc.
     let ask_avg_price = avg_price ask_acc in
     Inr \<lparr> bid_price = bid_avg_price,
           ask_price = ask_avg_price,
           spread = (if ask_avg_price \<noteq> 0 \<and> bid_avg_price \<noteq> 0
                     then ask_avg_price - bid_avg_price else 0),
           mid_price = (if ask_avg_price \<noteq> 0 \<and> bid_avg_price \<noteq> 0
                        then (ask_avg_price + bid_avg_price) / 2 else 0) \<rparr>))))))"

text \<open>
  An order-book snapshot as the exchange delivers it: a dict with the two sides, each a
  list of \<open>[price, quantity]\<close> levels.
\<close>

definition level :: "rat \<times> rat \<Rightarrow> pyval" where
  "level l = PList [PNum (fst l), PNum (snd l)]"

definition snapshot :: "(rat \<times> rat) list \<Rightarrow> (rat \<times> rat) list \<Rightarrow> pyval" where
  "snapshot bids asks =
     PDict [(''bids'', PList (map level bids)), (''asks'', PList (map level asks))]"



section \<open>The market data client and the cycle orchestrator\<close>

text \<open>
  The HTTP session is the environment: for a URL and its query parameters it either raises
  (a transport failure) or gives a response, whose status \<open>raise_for_status\<close> checks and
  whose body \<open>response.json()\<close> decodes, which may raise as well.
\<close>

record response =
  status :: nat
  json_body :: "exn + pyval"

type_synonym session = "string \<Rightarrow> (string \<times> pyval) list \<Rightarrow> exn + response"

definition SPOT_BASE_URL :: string where
  "SPOT_BASE_URL = ''https://api.binance.com''"

definition FUTURES_BASE_URL :: string where
  "FUTURES_BASE_URL = ''https://fapi.binance.com''"

definition raise_for_status :: "response \<Rightarrow> exn + unit" where
  "raise_for_status resp =
     (if 400 \<le> status resp then Inl (ClientResponseError (status resp)) else Inr ())"

definition request :: "session \<Rightarrow> string \<Rightarrow> string \<Rightarrow> (string \<times> pyval) list \<Rightarrow> exn + pyval" where
  "request sess base_url endpoint params =
     and_then (sess (base_url @ endpoint) params) (\<lambda>resp.
     and_then (raise_for_status resp) (\<lambda>_. json_body resp))"

definition get_futures_ticker :: "session \<Rightarrow> string \<Rightarrow> exn + pyval" where
  "get_futures_ticker sess symb =
     request sess FUTURES_BASE_URL ''/fapi/v1/ticker/24hr'' [(''symbol'', PStr symb)]"

definition get_futures_orderbook :: "session \<Rightarrow> string \<Rightarrow> nat \<Rightarrow> exn + pyval" where
  "get_futures_orderbook sess symb limit =
     request sess FUTURES_BASE_URL ''/fapi/v1/depth''
       [(''symbol'', PStr symb), (''limit'', PNum (of_nat limit))]"

definition get_futures_kline :: "session \<Rightarrow> string \<Rightarrow> string \<Rightarrow> nat \<Rightarrow> exn + pyval" where
  "get_futures_kline sess symb interval limit =
     request sess FUTURES_BASE_URL ''/fapi/v1/klines''
       [(''symbol'', PStr symb), (''interval'', PStr interval), (''limit'', PNum (of_nat limit))]"

definition get_basis :: "session \<Rightarrow> string \<Rightarrow> exn + pyval" where
  "get_basis sess pr =
     request sess FUTURES_BASE_URL ''/futures/data/basis''
       [(''pair'', PStr pr), (''contractType'', PStr ''PERPETUAL''),
        (''period'', PStr ''5m''), (''limit'', PNum 1)]"

definition get_open_interest_hist :: "session \<Rightarrow> string \<Rightarrow> exn + pyval" where
  "get_open_interest_hist sess symb =
     request sess FUTURES_BASE_URL ''/futures/data/openInterestHist''
       [(''symbol'', PStr symb), (''period'', PStr ''5m''), (''limit'', PNum 1)]"

definition get_funding_rate :: "session \<Rightarrow> string \<Rightarrow> exn + pyval" where
  "get_funding_rate sess symb =
     request sess FUTURES_BASE_URL ''/fapi/v1/fundingRate''
       [(''symbol'', PStr symb), (''limit'', PNum 1)]"

definition get_premium_index :: "session \<Rightarrow> string \<Rightarrow> exn + pyval" where
  "get_premium_index sess symb =
     request sess FUTURES_BASE_URL ''/fapi/v1/premiumIndex'' [(''symbol'', PStr symb)]"

text \<open>The monitor object, as \<open>__init__\<close> builds it.\<close>

record monitor =
  output_dir :: string
  target_oz :: rat
  symbol :: string
  pair :: string
  files :: "(string \<times> string) list"

definition PAXGMonitor :: "string \<Rightarrow> rat \<Rightarrow> monitor" where
  "PAXGMonitor dir oz =
     \<lparr> output_dir = dir, target_oz = oz, symbol = ''PAXGUSDT'', pair = ''PAXGUSDT'',
       files = [(''price'', dir @ ''/price.jsonl''),
                (''basisRate'', dir @ ''/basisRate.jsonl''),
                (''openinterest'', dir @ ''/openinterest.jsonl''),
                (''fundingRate'', dir @ ''/fundingRate.jsonl''),
                (''volume_24h'', dir @ ''/volume_24h.jsonl''),
                (''spread'', dir @ ''/spread.jsonl'')] \<rparr>"

text \<open>
  \<open>asyncio.gather\<close> gives the outcomes in the order of its arguments. With
  \<open>return_exceptions\<close> an exception is an element of the list it returns; without, the
  call raises (the model takes the first failure in argument order). The elements are
  what \<open>isinstance(result, Exception)\<close> then tells apart.
\<close>

datatype gathered = Raised exn | Returned pyval

fun first_failure :: "(exn + pyval) list \<Rightarrow> exn option" where
  "first_failure [] = None"
| "first_failure (Inl e # rest) = Some e"
| "first_failure (Inr v # rest) = first_failure rest"

definition gather :: "bool \<Rightarrow> (exn + pyval) list \<Rightarrow> exn + gathered list" where
  "gather return_exceptions outcomes =
     (if return_exceptions then Inr (map (case_sum Raised Returned) outcomes)
      else case first_failure outcomes of
             Some e \<Rightarrow> Inl e
           | None \<Rightarrow> Inr (map (case_sum Raised Returned) outcomes))"

text \<open>The \<open>tasks\<close> dict of \<open>fetch_all_data\<close>: each operation with its outcome.\<close>

definition tasks :: "monitor \<Rightarrow> session \<Rightarrow> (string \<times> (exn + pyval)) list" where
  "tasks self sess =
     [(''ticker'', get_futures_ticker sess (symbol self)),
      (''orderbook'', get_futures_orderbook sess (symbol self) 100),
      (''kline'', get_futures_kline sess (symbol self) ''1m'' 1),
      (''basis'', get_basis sess (pair self)),
      (''open_interest_hist'', get_open_interest_hist sess (symbol self)),
      (''funding_rate'', get_funding_rate sess (symbol self)),
      (''premium_index'', get_premium_index sess (symbol self))]"

text \<open>
  The bundle is a dict from operation name to payload. An assignment \<open>results[key] = v\<close>
  replaces the value of a key that is there and appends a new key, which is
  \<open>AList.update\<close>. The warning printed for a failure is console output and not modelled.
\<close>

type_synonym cycle_bundle = "(string \<times> pyval) list"

definition record_result :: "string \<times> gathered \<Rightarrow> cycle_bundle \<Rightarrow> cycle_bundle" where
  "record_result kr results =
     (case snd kr of
        Raised e \<Rightarrow> AList.update (fst kr) PNone results
      | Returned v \<Rightarrow> AList.update (fst kr) v results)"

definition fetch_all_data :: "monitor \<Rightarrow> session \<Rightarrow> exn + cycle_bundle" where
  "fetch_all_data self sess =
     and_then (gather True (map snd (tasks self sess))) (\<lambda>gathered.
       Inr (fold record_result (zip (map fst (tasks self sess)) gathered) []))"

text \<open>What the bundle should hold for an operation's outcome: the payload, or \<open>None\<close>.\<close>

definition payload_or_None :: "exn + pyval \<Rightarrow> pyval" where
  "payload_or_None outcome = (case outcome of Inl e \<Rightarrow> PNone | Inr v \<Rightarrow> v)"

section \<open>The record builder and the sink\<close>

text \<open>
  The series stores: each path holds the records appended so far (a line of the file is
  kept as the record it serialises). \<open>writable\<close> tells whether opening the path for append
  and writing the line succeeds; otherwise \<open>_append_jsonl\<close> raises \<open>OSError\<close>.
\<close>

record store =
  contents :: "string \<Rightarrow> pyval list"
  writable :: "string \<Rightarrow> bool"

definition append_jsonl :: "store \<Rightarrow> string \<Rightarrow> pyval \<Rightarrow> exn + store" where
  "append_jsonl fs filepath data =
     (if writable fs filepath
      then Inr (fs\<lparr> contents := (contents fs)(filepath := contents fs filepath @ [data]) \<rparr>)
      else Inl OSError)"

text \<open>\<open>raw_data.get(key)\<close> on the bundle, and \<open>self.files[key]\<close>.\<close>

definition raw_get :: "cycle_bundle \<Rightarrow> string \<Rightarrow> pyval" where
  "raw_get raw_data k = (case map_of raw_data k of Some v \<Rightarrow> v | None \<Rightarrow> PNone)"

definition files_at :: "monitor \<Rightarrow> string \<Rightarrow> exn + string" where
  "files_at self k = (case map_of (files self) k of Some p \<Rightarrow> Inr p | None \<Rightarrow> Inl KeyError)"

text \<open>
  Each \<open>_write_*\<close> method builds its \<open>data\<close> dict and appends it. The building part is
  named \<open>*_data\<close> here; \<open>timestamp\<close> is the integer the caller passes. A name cannot
  start with an underscore here, so \<open>_request\<close>, \<open>_append_jsonl\<close> and the \<open>_write_*\<close>
  methods are \<open>request\<close>, \<open>append_jsonl\<close> and \<open>write_*\<close>.
\<close>

definition close_price_of :: "pylib \<Rightarrow> pyval \<Rightarrow> exn + rat" where
  "close_price_of lib kline =
     and_then (if truthy kline
               then and_then (subscript kline 0) (\<lambda>k0.
                    and_then (len k0) (\<lambda>n. Inr (n > 4)))
               else Inr False) (\<lambda>has_close.
     if has_close
     then and_then (subscript kline 0) (\<lambda>k0.
          and_then (subscript k0 4) (\<lambda>c. float_of lib c))
     else Inr 0)"

definition price_data :: "pylib \<Rightarrow> monitor \<Rightarrow> cycle_bundle \<Rightarrow> int \<Rightarrow> exn + pyval" where
  "price_data lib self raw_data timestamp =
     (let kline = py_or (raw_get raw_data ''kline'') (PList [PList []]);
          orderbook = py_or (raw_get raw_data ''orderbook'') (PDict [])
      in and_then (close_price_of lib kline) (\<lambda>close_price.
         and_then (calculate_orderbook_spread lib orderbook (target_oz self)) (\<lambda>spread_info.
         Inr (PDict [(''timestamp'', PNum (of_int timestamp)),
                     (''price'', PNum close_price),
                     (''mid_price'', PNum (mid_price spread_info))]))))"

definition nonempty :: "pyval \<Rightarrow> exn + bool" where
  "nonempty xs = (if truthy xs then and_then (len xs) (\<lambda>n. Inr (n > 0)) else Inr False)"

definition basis_rate_data :: "monitor \<Rightarrow> cycle_bundle \<Rightarrow> int \<Rightarrow> exn + pyval" where
  "basis_rate_data self raw_data timestamp =
     (let basis_list = py_or (raw_get raw_data ''basis'') (PList [])
      in and_then (nonempty basis_list) (\<lambda>present.
         if present
         then and_then (subscript basis_list 0) (\<lambda>basis.
              and_then (dict_get basis ''indexPrice'' (PStr '''')) (\<lambda>indexPrice.
              and_then (dict_get basis ''contractType'' (PStr ''PERPETUAL'')) (\<lambda>contractType.
              and_then (dict_get basis ''basisRate'' (PStr '''')) (\<lambda>basisRate.
              and_then (dict_get basis ''futuresPrice'' (PStr '''')) (\<lambda>futuresPrice.
              and_then (dict_get basis ''annualizedBasisRate'' (PStr '''')) (\<lambda>annualized.
              and_then (dict_get basis ''basis'' (PStr '''')) (\<lambda>basis_value.
              and_then (dict_get basis ''timestamp'' (PNum (of_int timestamp))) (\<lambda>ts.
              Inr (PDict [(''indexPrice'', indexPrice),
                          (''contractType'', contractType),
                          (''basisRate'', basisRate),
                          (''futuresPrice'', futuresPrice),
                          (''annualizedBasisRate'', annualized),
                          (''basis'', basis_value),
                          (''pair'', PStr (pair self)),
                          (''timestamp'', ts)])))))))))
         else Inr (PDict [(''indexPrice'', PStr ''''),
                          (''contractType'', PStr ''PERPETUAL''),
                          (''basisRate'', PStr ''''),
                          (''futuresPrice'', PStr ''''),
                          (''annualizedBasisRate'', PStr ''''),
                          (''basis'', PStr ''''),
                          (''pair'', PStr (pair self)),
                          (''timestamp'', PNum (of_int timestamp))])))"

definition open_interest_data :: "monitor \<Rightarrow> cycle_bundle \<Rightarrow> int \<Rightarrow> exn + pyval" where
  "open_interest_data self raw_data timestamp =
     (let oi_list = py_or (raw_get raw_data ''open_interest_hist'') (PList [])
      in and_then (nonempty oi_list) (\<lambda>present.
         if present
         then and_then (subscript oi_list 0) (\<lambda>oi.
              and_then (dict_get oi ''sumOpenInterest'' (PStr '''')) (\<lambda>sumOpenInterest.
              and_then (dict_get oi ''sumOpenInterestValue'' (PStr '''')) (\<lambda>sumValue.
              and_then (dict_get oi ''timestamp'' (PNum (of_int timestamp))) (\<lambda>ts.
              Inr (PDict [(''symbol'', PStr (symbol self)),
                          (''sumOpenInterest'', sumOpenInterest),
                          (''sumOpenInterestValue'', sumValue),
                          (''timestamp'', ts)])))))
         else Inr (PDict [(''symbol'', PStr (symbol self)),
                          (''sumOpenInterest'', PStr ''''),
                          (''sumOpenInterestValue'', PStr ''''),
                          (''timestamp'', PNum (of_int timestamp))])))"

definition funding_rate_data :: "monitor \<Rightarrow> cycle_bundle \<Rightarrow> int \<Rightarrow> exn + pyval" where
  "funding_rate_data self raw_data timestamp =
     (let funding_list = py_or (raw_get raw_data ''funding_rate'') (PList []);
          premium = py_or (raw_get raw_data ''premium_index'') (PDict [])
      in and_then (dict_get premium ''lastFundingRate'' (PStr '''')) (\<lambda>funding_rate.
         and_then (if \<not> truthy funding_rate \<and> truthy funding_list
                   then and_then (subscript funding_list 0) (\<lambda>first.
                        dict_get first ''fundingRate'' (PStr ''''))
                   else Inr funding_rate) (\<lambda>funding_rate.
         Inr (PDict [(''symbol'', PStr (symbol self)),
                     (''fundingRate'', funding_rate),
                     (''timestamp'', PNum (of_int timestamp))]))))"

definition volume_data :: "monitor \<Rightarrow> cycle_bundle \<Rightarrow> int \<Rightarrow> exn + pyval" where
  "volume_data self raw_data timestamp =
     (let ticker = py_or (raw_get raw_data ''ticker'') (PDict [])
      in and_then (dict_get ticker ''volume'' (PStr '''')) (\<lambda>volume.
         and_then (dict_get ticker ''quoteVolume'' (PStr '''')) (\<lambda>quoteVolume.
         Inr (PDict [(''symbol'', PStr (symbol self)),
                     (''volume'', volume),
                     (''quoteVolume'', quoteVolume),
                     (''timestamp'', PNum (of_int timestamp))]))))"

definition spread_data :: "pylib \<Rightarrow> monitor \<Rightarrow> cycle_bundle \<Rightarrow> int \<Rightarrow> exn + pyval" where
  "spread_data lib self raw_data timestamp =
     (let orderbook = py_or (raw_get raw_data ''orderbook'') (PDict [])
      in and_then (calculate_orderbook_spread lib orderbook (target_oz self)) (\<lambda>spread_info.
         Inr (PDict [(''symbol'', PStr (symbol self)),
                     (''spread'', PNum (spread spread_info)),
                     (''timestamp'', PNum (of_int timestamp))])))"

definition write_to :: "monitor \<Rightarrow> string \<Rightarrow> exn + pyval \<Rightarrow> store \<Rightarrow> exn + store" where
  "write_to self key built fs =
     and_then built (\<lambda>data.
     and_then (files_at self key) (\<lambda>filepath. append_jsonl fs filepath data))"

definition write_price :: "pylib \<Rightarrow> monitor \<Rightarrow> cycle_bundle \<Rightarrow> int \<Rightarrow> store \<Rightarrow> exn + store" where
  "write_price lib self raw_data timestamp fs =
     write_to self ''price'' (price_data lib self raw_data timestamp) fs"

definition write_basis_rate :: "monitor \<Rightarrow> cycle_bundle \<Rightarrow> int \<Rightarrow> store \<Rightarrow> exn + store" where
  "write_basis_rate self raw_data timestamp fs =
     write_to self ''basisRate'' (basis_rate_data self raw_data timestamp) fs"

definition write_open_interest :: "monitor \<Rightarrow> cycle_bundle \<Rightarrow> int \<Rightarrow> store \<Rightarrow> exn + store" where
  "write_open_interest self raw_data timestamp fs =
     write_to self ''openinterest'' (open_interest_data self raw_data timestamp) fs"

definition write_funding_rate :: "monitor \<Rightarrow> cycle_bundle \<Rightarrow> int \<Rightarrow> store \<Rightarrow> exn + store" where
  "write_funding_rate self raw_data timestamp fs =
     write_to self ''fundingRate'' (funding_rate_data self raw_data timestamp) fs"

definition write_volume :: "monitor \<Rightarrow> cycle_bundle \<Rightarrow> int \<Rightarrow> store \<Rightarrow> exn + store" where
  "write_volume self raw_data timestamp fs =
     write_to self ''volume_24h'' (volume_data self raw_data timestamp) fs"

definition write_spread :: "pylib \<Rightarrow> monitor \<Rightarrow> cycle_bundle \<Rightarrow> int \<Rightarrow> store \<Rightarrow> exn + store" where
  "write_spread lib self raw_data timestamp fs =
     write_to self ''spread'' (spread_data lib self raw_data timestamp) fs"

text \<open>
  \<open>process_and_write\<close> reads the clock once (\<open>now_ms\<close> is that reading, in milliseconds)
  and runs the six writers in order. It has no handler: the first exception leaves the
  method, with the store as the writers before it left it. The result is the exception
  that escaped, if any, and the store.
\<close>

definition process_and_write ::
  "pylib \<Rightarrow> monitor \<Rightarrow> cycle_bundle \<Rightarrow> int \<Rightarrow> store \<Rightarrow> exn option \<times> store" where
  "process_and_write lib self raw_data now_ms fs0 =
     (let timestamp = now_ms in
      (case write_price lib self raw_data timestamp fs0 of
         Inl e \<Rightarrow> (Some e, fs0)
       | Inr fs1 \<Rightarrow>
      (case write_basis_rate self raw_data timestamp fs1 of
         Inl e \<Rightarrow> (Some e, fs1)
       | Inr fs2 \<Rightarrow>
      (case write_open_interest self raw_data timestamp fs2 of
         Inl e \<Rightarrow> (Some e, fs2)
       | Inr fs3 \<Rightarrow>
      (case write_funding_rate self raw_data timestamp fs3 of
         Inl e \<Rightarrow> (Some e, fs3)
       | Inr fs4 \<Rightarrow>
      (case write_volume self raw_data timestamp fs4 of
         Inl e \<Rightarrow> (Some e, fs4)
       | Inr fs5 \<Rightarrow>
      (case write_spread lib self raw_data timestamp fs5 of
         Inl e \<Rightarrow> (Some e, fs5)
       | Inr fs6 \<Rightarrow> (None, fs6))))))))"

section \<open>Notions the properties are stated with\<close>





text \<open>
  An instance of the string conversions, for running the model on concrete payloads: it
  reads an unsigned plain decimal literal such as \<open>2650.5\<close>, on which it agrees with
  Python, and is only applied to such strings.
\<close>

definition is_digit :: "char \<Rightarrow> bool" where
  "is_digit c = (48 \<le> (of_char c :: nat) \<and> (of_char c :: nat) \<le> 57)"

fun digits_value :: "nat \<Rightarrow> string \<Rightarrow> nat" where
  "digits_value acc [] = acc"
| "digits_value acc (c # cs) = digits_value (10 * acc + (of_char c - 48)) cs"

definition plain_decimal :: "string \<Rightarrow> rat option" where
  "plain_decimal s =
     (let whole = takeWhile is_digit s; rest = dropWhile is_digit s in
      if whole = [] then None
      else if rest = [] then Some (of_nat (digits_value 0 whole))
      else if hd rest = CHR ''.'' \<and> tl rest \<noteq> [] \<and> list_all is_digit (tl rest)
      then Some (of_nat (digits_value 0 (whole @ tl rest)) / 10 ^ length (tl rest))
      else None)"

definition plain_lib :: pylib where
  "plain_lib =
     \<lparr> Decimal_str =
         (\<lambda>s. case plain_decimal s of Some r \<Rightarrow> Inr r | None \<Rightarrow> Inl InvalidOperation),
       float_str =
         (\<lambda>s. case plain_decimal s of Some r \<Rightarrow> Inr r | None \<Rightarrow> Inl ValueError) \<rparr>"

text \<open>
  The six series in the order \<open>process_and_write\<close> writes them, the path \<open>__init__\<close>
  gives each, and the records a cycle appended to a path (the store after against the
  store before).
\<close>

definition series :: "string list" where
  "series = [''price'', ''basisRate'', ''openinterest'', ''fundingRate'', ''volume_24h'', ''spread'']"

definition series_path :: "string \<Rightarrow> string \<Rightarrow> string" where
  "series_path dir k = dir @ ''/'' @ k @ ''.jsonl''"

definition appended :: "store \<Rightarrow> store \<Rightarrow> string \<Rightarrow> pyval list" where
  "appended before after p = drop (length (contents before p)) (contents after p)"

text \<open>
  The timestamp that \<open>_write_basis_rate\<close> and \<open>_write_open_interest\<close> give their record:
  the one of the payload's first element when that element has the field, the cycle's
  otherwise.
\<close>

definition payload_timestamp :: "cycle_bundle \<Rightarrow> string \<Rightarrow> int \<Rightarrow> pyval" where
  "payload_timestamp raw_data key timestamp =
     (case raw_get raw_data key of
        PList (PDict flds # rest) \<Rightarrow>
          (case map_of flds ''timestamp'' of
             Some v \<Rightarrow> v
           | None \<Rightarrow> PNum (of_int timestamp))
      | _ \<Rightarrow> PNum (of_int timestamp))"

text \<open>
  Payload shapes: a history is absent or a list whose first element, if there is one, is
  an object; an object payload is absent or an object.
\<close>

fun history_shaped :: "pyval \<Rightarrow> bool" where
  "history_shaped PNone = True"
| "history_shaped (PList []) = True"
| "history_shaped (PList (PDict flds # rest)) = True"
| "history_shaped _ = False"

fun object_shaped :: "pyval \<Rightarrow> bool" where
  "object_shaped PNone = True"
| "object_shaped (PDict flds) = True"
| "object_shaped _ = False"

text \<open>Stores for concrete runs: all files empty, every path writable or all but one.\<close>

definition empty_store :: store where
  "empty_store = \<lparr> contents = (\<lambda>p. []), writable = (\<lambda>p. True) \<rparr>"

definition store_failing_at :: "string \<Rightarrow> store" where
  "store_failing_at path = \<lparr> contents = (\<lambda>p. []), writable = (\<lambda>p. p \<noteq> path) \<rparr>"

text \<open>
  The six writer calls of \<open>process_and_write\<close> as a list of steps (series key and the
  record built for it), and the sequencing that stops at the first exception. The
  method is shown below to be this run of its steps, which is what the proofs induct on.
\<close>

fun run_writers ::
  "monitor \<Rightarrow> (string \<times> (exn + pyval)) list \<Rightarrow> store \<Rightarrow> exn option \<times> store" where
  "run_writers self [] fs = (None, fs)"
| "run_writers self (step # rest) fs =
     (case write_to self (fst step) (snd step) fs of
        Inl e \<Rightarrow> (Some e, fs)
      | Inr fs' \<Rightarrow> run_writers self rest fs')"

definition cycle_steps ::
  "pylib \<Rightarrow> monitor \<Rightarrow> cycle_bundle \<Rightarrow> int \<Rightarrow> (string \<times> (exn + pyval)) list" where
  "cycle_steps lib self raw_data timestamp =
     [(''price'', price_data lib self raw_data timestamp),
      (''basisRate'', basis_rate_data self raw_data timestamp),
      (''openinterest'', open_interest_data self raw_data timestamp),
      (''fundingRate'', funding_rate_data self raw_data timestamp),
      (''volume_24h'', volume_data self raw_data timestamp),
      (''spread'', spread_data lib self raw_data timestamp)]"

text \<open>
  A session for concrete runs: the depth request fails in transport, the basis request
  gets status 500, the body of the premium index does not decode, the rest succeed.
\<close>

definition outage :: session where
  "outage url params =
     (if url = ''https://fapi.binance.com/fapi/v1/depth'' then Inl ClientConnectionError
      else if url = ''https://fapi.binance.com/futures/data/basis''
      then Inr \<lparr> status = 500, json_body = Inr PNone \<rparr>
      else if url = ''https://fapi.binance.com/fapi/v1/premiumIndex''
      then Inr \<lparr> status = 200, json_body = Inl ContentTypeError \<rparr>
      else Inr \<lparr> status = 200, json_body = Inr (PList []) \<rparr>)"

text \<open>
  A bundle for concrete runs: the order-book fetch failed, the other six payloads are as
  the exchange sends them (shortened to the fields that are read and a few more).
\<close>

definition sample_cycle :: cycle_bundle where
  "sample_cycle =
     [(''ticker'', PDict [(''symbol'', PStr ''PAXGUSDT''), (''lastPrice'', PStr ''2650.5''),
                          (''volume'', PStr ''1200.5''), (''quoteVolume'', PStr ''3181925.25'')]),
      (''orderbook'', PNone),
      (''kline'', PList [PList [PNum 1699999940000, PStr ''2650.1'', PStr ''2651.0'',
                                PStr ''2649.8'', PStr ''2650.5'', PStr ''12.5'']]),
      (''basis'', PList [PDict [(''indexPrice'', PStr ''2649.9''), (''basisRate'', PStr ''0.0002''),
                                (''futuresPrice'', PStr ''2650.5''), (''basis'', PStr ''0.6''),
                                (''timestamp'', PNum 1699999800000)]]),
      (''open_interest_hist'', PList [PDict [(''sumOpenInterest'', PStr ''5000.1''),
                                             (''sumOpenInterestValue'', PStr ''13252500.0''),
                                             (''timestamp'', PNum 1699999800000)]]),
      (''funding_rate'', PList [PDict [(''fundingRate'', PStr ''0.0001''),
                                       (''fundingTime'', PNum 1699977600000)]]),
      (''premium_index'', PDict [(''markPrice'', PStr ''2650.4''),
                                 (''lastFundingRate'', PStr ''0.00012'')])]"

section \<open>Properties of the depth pricer\<close>

lemma and_then_Inl [simp]: "and_then (Inl e) f = Inl e"
  by (simp add: and_then_def)

lemma and_then_Inr [simp]: "and_then (Inr v) f = f v"
  by (simp add: and_then_def)

lemma unpack_pair_level [simp]: "unpack_pair (level l) = Inr (PNum (fst l), PNum (snd l))"
  by (simp add: unpack_pair_def level_def)









text \<open>
  C2. For the snapshot with bids \<open>[(100,1),(99,3)]\<close> and asks \<open>[(101,2),(102,5)]\<close> and
  target size 2, \<open>calculate_orderbook_spread\<close> returns the bid weighted price 99.5, the
  ask weighted price 101, the spread 1.5 and the mid price 100.25.
\<close>

theorem C2_scenario:
  "calculate_orderbook_spread lib
     (snapshot [(100, 1), (99, 3)] [(101, 2), (102, 5)]) 2 =
   Inr \<lparr> bid_price = 199 / 2, ask_price = 101, spread = 3 / 2, mid_price = 401 / 4 \<rparr>"
  by (simp add: calculate_orderbook_spread_def snapshot_def level_def unpack_pair_def
      avg_price_def Let_def)









section \<open>Properties of the orchestrator and of the record builder\<close>

lemma record_result_outcome:
  "record_result (k, case_sum Raised Returned outcome) results
     = AList.update k (payload_or_None outcome) results"
  by (cases outcome) (simp_all add: record_result_def payload_or_None_def)

lemma process_and_write_steps:
  "process_and_write lib self raw now fs = run_writers self (cycle_steps lib self raw now) fs"
  by (simp add: process_and_write_def cycle_steps_def write_price_def write_basis_rate_def
      write_open_interest_def write_funding_rate_def write_volume_def write_spread_def
      split: sum.splits)

lemma cycle_steps_keys: "map fst (cycle_steps lib self raw now) = series"
  by (simp add: cycle_steps_def series_def)

lemma distinct_series: "distinct series"
  by (simp add: series_def)

lemma files_at_PAXGMonitor:
  "k \<in> set series \<Longrightarrow> files_at (PAXGMonitor dir oz) k = Inr (series_path dir k)"
  by (auto simp: series_def files_at_def PAXGMonitor_def series_path_def)

lemma series_path_eq [simp]: "series_path dir k = series_path dir k' \<longleftrightarrow> k = k'"
  by (simp add: series_path_def)

lemma write_to_effect:
  assumes "k \<in> set series"
    and "write_to (PAXGMonitor dir oz) k built fs = Inr fs'"
  shows "\<exists>data. built = Inr data \<and> writable fs (series_path dir k) \<and> writable fs' = writable fs
           \<and> contents fs' = (contents fs)(series_path dir k := contents fs (series_path dir k) @ [data])"
  using assms
  by (cases built)
     (auto simp: write_to_def files_at_PAXGMonitor append_jsonl_def split: if_splits)

lemma write_to_writable:
  assumes "k \<in> set series" and "writable fs (series_path dir k)"
  shows "write_to (PAXGMonitor dir oz) k (Inr data) fs =
           Inr (fs\<lparr> contents := (contents fs)(series_path dir k := contents fs (series_path dir k) @ [data]) \<rparr>)"
  using assms
  by (auto simp: write_to_def files_at_PAXGMonitor append_jsonl_def)

lemma run_writers_effect:
  assumes "run_writers (PAXGMonitor dir oz) steps fs = (r, fs')"
    and "set (map fst steps) \<subseteq> set series"
    and "distinct (map fst steps)"
  shows "writable fs' = writable fs
       \<and> (\<forall>k. k \<notin> set (map fst steps) \<longrightarrow> contents fs' (series_path dir k) = contents fs (series_path dir k))
       \<and> (\<forall>step \<in> set steps.
             appended fs fs' (series_path dir (fst step)) = []
           \<or> (\<exists>data. snd step = Inr data \<and> appended fs fs' (series_path dir (fst step)) = [data]))"
  using assms
proof (induction steps arbitrary: fs)
  case Nil
  then show ?case by simp
next
  case (Cons step rest)
  show ?case
  proof (cases "write_to (PAXGMonitor dir oz) (fst step) (snd step) fs")
    case (Inl e)
    with Cons.prems(1) have "fs' = fs" by simp
    then show ?thesis by (simp add: appended_def)
  next
    case (Inr fs1)
    have k: "fst step \<in> set series" using Cons.prems(2) by simp
    obtain data where data: "snd step = Inr data"
      and w1: "writable fs1 = writable fs"
      and c1: "contents fs1 = (contents fs)(series_path dir (fst step) :=
                 contents fs (series_path dir (fst step)) @ [data])"
      using write_to_effect [OF k Inr] by blast
    have run: "run_writers (PAXGMonitor dir oz) rest fs1 = (r, fs')"
      using Cons.prems(1) Inr by simp
    have sub: "set (map fst rest) \<subseteq> set series" using Cons.prems(2) by simp
    have dist: "distinct (map fst rest)" using Cons.prems(3) by simp
    have notin: "fst step \<notin> set (map fst rest)" using Cons.prems(3) by simp
    note IH = Cons.IH [OF run sub dist]
    have w: "writable fs' = writable fs" using IH w1 by simp
    have others: "\<forall>k. k \<notin> set (map fst (step # rest)) \<longrightarrow>
                    contents fs' (series_path dir k) = contents fs (series_path dir k)"
      using IH c1 by simp
    have this_step: "appended fs fs' (series_path dir (fst step)) = [data]"
      using IH notin c1 by (simp add: appended_def)
    have rest_steps: "appended fs fs' (series_path dir (fst s)) = appended fs1 fs' (series_path dir (fst s))"
      if "s \<in> set rest" for s
    proof -
      from that have "fst s \<in> set (map fst rest)" by simp
      with notin have "fst s \<noteq> fst step" by metis
      then show ?thesis using c1 by (simp add: appended_def)
    qed
    show ?thesis
      using w others this_step data rest_steps IH by auto
  qed
qed

lemma run_writers_unwritable:
  assumes "run_writers (PAXGMonitor dir oz) steps fs = (r, fs')"
    and "set (map fst steps) \<subseteq> set series"
    and "distinct (map fst steps)"
    and "k \<in> set (map fst steps)"
    and "\<not> writable fs (series_path dir k)"
  shows "r \<noteq> None
       \<and> (\<forall>k' \<in> set (dropWhile (\<lambda>x. x \<noteq> k) (map fst steps)).
             contents fs' (series_path dir k') = contents fs (series_path dir k'))"
  using assms
proof (induction steps arbitrary: fs)
  case Nil
  then show ?case by simp
next
  case (Cons step rest)
  show ?case
  proof (cases "write_to (PAXGMonitor dir oz) (fst step) (snd step) fs")
    case (Inl e)
    with Cons.prems(1) show ?thesis by auto
  next
    case (Inr fs1)
    have k0: "fst step \<in> set series" using Cons.prems(2) by simp
    obtain data where w0: "writable fs (series_path dir (fst step))"
      and w1: "writable fs1 = writable fs"
      and c1: "contents fs1 = (contents fs)(series_path dir (fst step) :=
                 contents fs (series_path dir (fst step)) @ [data])"
      using write_to_effect [OF k0 Inr] by blast
    from w0 Cons.prems(5) have neq: "fst step \<noteq> k" by auto
    with Cons.prems(4) have kin: "k \<in> set (map fst rest)" by auto
    have run: "run_writers (PAXGMonitor dir oz) rest fs1 = (r, fs')"
      using Cons.prems(1) Inr by simp
    have sub: "set (map fst rest) \<subseteq> set series" using Cons.prems(2) by simp
    have dist: "distinct (map fst rest)" using Cons.prems(3) by simp
    have notin: "fst step \<notin> set (map fst rest)" using Cons.prems(3) by simp
    have unw: "\<not> writable fs1 (series_path dir k)" using w1 Cons.prems(5) by simp
    note IH = Cons.IH [OF run sub dist kin unw]
    have "contents fs1 (series_path dir k') = contents fs (series_path dir k')"
      if "k' \<in> set (dropWhile (\<lambda>x. x \<noteq> k) (map fst rest))" for k'
    proof -
      from that have "k' \<in> set (map fst rest)" by (rule set_dropWhileD)
      with notin have "k' \<noteq> fst step" by metis
      then show ?thesis using c1 by simp
    qed
    with IH neq show ?thesis by simp
  qed
qed

lemma and_then_eq_Inr: "and_then r f = Inr v \<longleftrightarrow> (\<exists>x. r = Inr x \<and> f x = Inr v)"
  by (cases r) simp_all

lemma price_data_timestamp:
  "price_data lib self raw now = Inr data \<Longrightarrow>
   dict_get data ''timestamp'' PNone = Inr (PNum (of_int now))"
  by (auto simp: price_data_def Let_def and_then_eq_Inr)

lemma funding_rate_data_timestamp:
  "funding_rate_data self raw now = Inr data \<Longrightarrow>
   dict_get data ''timestamp'' PNone = Inr (PNum (of_int now))"
  by (auto simp: funding_rate_data_def Let_def and_then_eq_Inr)

lemma volume_data_timestamp:
  "volume_data self raw now = Inr data \<Longrightarrow>
   dict_get data ''timestamp'' PNone = Inr (PNum (of_int now))"
  by (auto simp: volume_data_def Let_def and_then_eq_Inr)

lemma spread_data_timestamp:
  "spread_data lib self raw now = Inr data \<Longrightarrow>
   dict_get data ''timestamp'' PNone = Inr (PNum (of_int now))"
  by (auto simp: spread_data_def Let_def and_then_eq_Inr)

lemma first_object:
  "truthy xs \<Longrightarrow> nonempty xs = Inr present \<Longrightarrow> subscript xs 0 = Inr x \<Longrightarrow>
   dict_get x k d = Inr v \<Longrightarrow>
   \<exists>flds rest. xs = PList (PDict flds # rest) \<and> x = PDict flds
      \<and> v = (case map_of flds k of Some w \<Rightarrow> w | None \<Rightarrow> d)"
  by (cases xs; cases x) (auto simp: nonempty_def neq_Nil_conv split: if_splits)

lemma absent_history:
  "nonempty (py_or b (PList [])) = Inr False \<Longrightarrow> \<not> truthy b"
  by (cases b) (auto simp: nonempty_def py_or_def split: if_splits)

lemma payload_timestamp_falsy:
  "\<not> truthy (raw_get raw k) \<Longrightarrow> payload_timestamp raw k now = PNum (of_int now)"
  by (cases "raw_get raw k") (auto simp: payload_timestamp_def split: list.splits pyval.splits)

lemma basis_rate_data_timestamp:
  assumes "basis_rate_data self raw now = Inr data"
  shows "dict_get data ''timestamp'' PNone = Inr (payload_timestamp raw ''basis'' now)"
proof -
  let ?b = "py_or (raw_get raw ''basis'') (PList [])"
  from assms obtain present where p: "nonempty ?b = Inr present"
    by (auto simp: basis_rate_data_def Let_def and_then_eq_Inr)
  show ?thesis
  proof (cases present)
    case False
    with p have "\<not> truthy (raw_get raw ''basis'')" by (simp add: absent_history)
    with assms p False show ?thesis
      by (auto simp: basis_rate_data_def Let_def payload_timestamp_falsy)
  next
    case True
    with p have t: "truthy ?b" by (auto simp: nonempty_def split: if_splits)
    then have same: "?b = raw_get raw ''basis''" by (auto simp: py_or_def split: if_splits)
    from assms p True obtain x ts where x: "subscript ?b 0 = Inr x"
      and ts: "dict_get x ''timestamp'' (PNum (of_int now)) = Inr ts"
      and d: "dict_get data ''timestamp'' PNone = Inr ts"
      by (auto simp: basis_rate_data_def Let_def and_then_eq_Inr)
    from first_object [OF t p x ts] same d show ?thesis
      by (auto simp: payload_timestamp_def)
  qed
qed

lemma open_interest_data_timestamp:
  assumes "open_interest_data self raw now = Inr data"
  shows "dict_get data ''timestamp'' PNone = Inr (payload_timestamp raw ''open_interest_hist'' now)"
proof -
  let ?b = "py_or (raw_get raw ''open_interest_hist'') (PList [])"
  from assms obtain present where p: "nonempty ?b = Inr present"
    by (auto simp: open_interest_data_def Let_def and_then_eq_Inr)
  show ?thesis
  proof (cases present)
    case False
    with p have "\<not> truthy (raw_get raw ''open_interest_hist'')" by (simp add: absent_history)
    with assms p False show ?thesis
      by (auto simp: open_interest_data_def Let_def payload_timestamp_falsy)
  next
    case True
    with p have t: "truthy ?b" by (auto simp: nonempty_def split: if_splits)
    then have same: "?b = raw_get raw ''open_interest_hist''"
      by (auto simp: py_or_def split: if_splits)
    from assms p True obtain x ts where x: "subscript ?b 0 = Inr x"
      and ts: "dict_get x ''timestamp'' (PNum (of_int now)) = Inr ts"
      and d: "dict_get data ''timestamp'' PNone = Inr ts"
      by (auto simp: open_interest_data_def Let_def and_then_eq_Inr)
    from first_object [OF t p x ts] same d show ?thesis
      by (auto simp: payload_timestamp_def)
  qed
qed

lemma monitor_fields [simp]:
  "symbol (PAXGMonitor dir oz) = ''PAXGUSDT''"
  "pair (PAXGMonitor dir oz) = ''PAXGUSDT''"
  "target_oz (PAXGMonitor dir oz) = oz"
  by (simp_all add: PAXGMonitor_def)

lemma in_series:
  "''price'' \<in> set series" "''basisRate'' \<in> set series" "''openinterest'' \<in> set series"
  "''fundingRate'' \<in> set series" "''volume_24h'' \<in> set series" "''spread'' \<in> set series"
  by (simp_all add: series_def)

lemma write_to_unwritable_OSError:
  assumes "k \<in> set series" and "\<not> writable fs (series_path dir k)"
  shows "write_to (PAXGMonitor dir oz) k (Inr data) fs = Inl OSError"
  using assms by (simp add: write_to_def files_at_PAXGMonitor append_jsonl_def)

lemma no_orderbook:
  "calculate_orderbook_spread lib (PDict []) t =
     Inr \<lparr> bid_price = 0, ask_price = 0, spread = 0, mid_price = 0 \<rparr>"
  by (simp add: calculate_orderbook_spread_def avg_price_def)

lemmas sample_defs = sample_cycle_def raw_get_def py_or_def nonempty_def Let_def

lemma sample_price:
  "price_data plain_lib self sample_cycle now =
     Inr (PDict [(''timestamp'', PNum (of_int now)), (''price'', PNum (5301 / 2)),
                 (''mid_price'', PNum 0)])"
  by (simp add: price_data_def close_price_of_def sample_defs no_orderbook plain_lib_def
      plain_decimal_def is_digit_def)

lemma sample_basis:
  "basis_rate_data self sample_cycle now =
     Inr (PDict [(''indexPrice'', PStr ''2649.9''), (''contractType'', PStr ''PERPETUAL''),
                 (''basisRate'', PStr ''0.0002''), (''futuresPrice'', PStr ''2650.5''),
                 (''annualizedBasisRate'', PStr ''''), (''basis'', PStr ''0.6''),
                 (''pair'', PStr (pair self)), (''timestamp'', PNum 1699999800000)])"
  by (simp add: basis_rate_data_def sample_defs)

lemma sample_open_interest:
  "open_interest_data self sample_cycle now =
     Inr (PDict [(''symbol'', PStr (symbol self)), (''sumOpenInterest'', PStr ''5000.1''),
                 (''sumOpenInterestValue'', PStr ''13252500.0''),
                 (''timestamp'', PNum 1699999800000)])"
  by (simp add: open_interest_data_def sample_defs)

lemma sample_funding:
  "funding_rate_data self sample_cycle now =
     Inr (PDict [(''symbol'', PStr (symbol self)), (''fundingRate'', PStr ''0.00012''),
                 (''timestamp'', PNum (of_int now))])"
  by (simp add: funding_rate_data_def sample_defs)

lemma sample_volume:
  "volume_data self sample_cycle now =
     Inr (PDict [(''symbol'', PStr (symbol self)), (''volume'', PStr ''1200.5''),
                 (''quoteVolume'', PStr ''3181925.25''), (''timestamp'', PNum (of_int now))])"
  by (simp add: volume_data_def sample_defs)

lemma sample_spread:
  "spread_data lib self sample_cycle now =
     Inr (PDict [(''symbol'', PStr (symbol self)), (''spread'', PNum 0),
                 (''timestamp'', PNum (of_int now))])"
  by (simp add: spread_data_def sample_defs no_orderbook)

lemmas sample_run =
  process_and_write_steps cycle_steps_def sample_price sample_basis sample_open_interest
  sample_funding sample_volume sample_spread write_to_writable write_to_unwritable_OSError
  in_series series_path_def empty_store_def store_failing_at_def

lemma run_writers_complete:
  assumes "run_writers (PAXGMonitor dir oz) steps fs = (None, fs')"
    and "set (map fst steps) \<subseteq> set series"
    and "distinct (map fst steps)"
  shows "\<forall>step \<in> set steps.
           \<exists>data. snd step = Inr data \<and> appended fs fs' (series_path dir (fst step)) = [data]"
  using assms
proof (induction steps arbitrary: fs)
  case Nil
  then show ?case by simp
next
  case (Cons step rest)
  show ?case
  proof (cases "write_to (PAXGMonitor dir oz) (fst step) (snd step) fs")
    case (Inl e)
    with Cons.prems(1) show ?thesis by simp
  next
    case (Inr fs1)
    have k: "fst step \<in> set series" using Cons.prems(2) by simp
    obtain data where data: "snd step = Inr data"
      and c1: "contents fs1 = (contents fs)(series_path dir (fst step) :=
                 contents fs (series_path dir (fst step)) @ [data])"
      using write_to_effect [OF k Inr] by blast
    have run: "run_writers (PAXGMonitor dir oz) rest fs1 = (None, fs')"
      using Cons.prems(1) Inr by simp
    have sub: "set (map fst rest) \<subseteq> set series" using Cons.prems(2) by simp
    have dist: "distinct (map fst rest)" using Cons.prems(3) by simp
    have notin: "fst step \<notin> set (map fst rest)" using Cons.prems(3) by simp
    have "contents fs' (series_path dir (fst step)) = contents fs1 (series_path dir (fst step))"
      using run_writers_effect [OF run sub dist] notin by blast
    then have this_step: "appended fs fs' (series_path dir (fst step)) = [data]"
      using c1 by (simp add: appended_def)
    have rest_steps: "appended fs fs' (series_path dir (fst s)) = appended fs1 fs' (series_path dir (fst s))"
      if "s \<in> set rest" for s
    proof -
      from that have "fst s \<in> set (map fst rest)" by simp
      with notin have "fst s \<noteq> fst step" by metis
      then show ?thesis using c1 by (simp add: appended_def)
    qed
    show ?thesis
      using this_step data rest_steps Cons.IH [OF run sub dist] by auto
  qed
qed

lemma run_writers_succeeds:
  assumes "\<forall>step \<in> set steps. \<exists>data. snd step = Inr data"
    and "set (map fst steps) \<subseteq> set series"
    and "\<forall>k \<in> set (map fst steps). writable fs (series_path dir k)"
  shows "\<exists>fs'. run_writers (PAXGMonitor dir oz) steps fs = (None, fs')"
  using assms
proof (induction steps arbitrary: fs)
  case Nil
  then show ?case by simp
next
  case (Cons step rest)
  from Cons.prems(1) obtain data where data: "snd step = Inr data" by auto
  have k: "fst step \<in> set series" using Cons.prems(2) by simp
  have w: "writable fs (series_path dir (fst step))" using Cons.prems(3) by simp
  let ?fs1 = "fs\<lparr> contents := (contents fs)(series_path dir (fst step) :=
                 contents fs (series_path dir (fst step)) @ [data]) \<rparr>"
  have step: "write_to (PAXGMonitor dir oz) (fst step) (snd step) fs = Inr ?fs1"
    using write_to_writable [OF k w] data by simp
  have "\<exists>fs'. run_writers (PAXGMonitor dir oz) rest ?fs1 = (None, fs')"
    using Cons.prems by (intro Cons.IH) simp_all
  with step show ?case by simp
qed

lemma history_data_built:
  "history_shaped h \<Longrightarrow>
   nonempty (py_or h (PList [])) = Inr False
   \<or> (\<exists>flds rest. py_or h (PList []) = PList (PDict flds # rest)
         \<and> nonempty (py_or h (PList [])) = Inr True)"
  by (cases h rule: history_shaped.cases) (simp_all add: py_or_def nonempty_def)

lemma basis_rate_data_built:
  assumes "history_shaped (raw_get raw ''basis'')"
  shows "\<exists>data. basis_rate_data self raw now = Inr data"
  using history_data_built [OF assms]
  by (auto simp: basis_rate_data_def Let_def)

lemma open_interest_data_built:
  assumes "history_shaped (raw_get raw ''open_interest_hist'')"
  shows "\<exists>data. open_interest_data self raw now = Inr data"
  using history_data_built [OF assms]
  by (auto simp: open_interest_data_def Let_def)

lemma premium_object:
  "object_shaped p \<Longrightarrow> \<exists>prem. py_or p (PDict []) = PDict prem"
  by (cases p) (simp_all add: py_or_def)

lemma history_first:
  "history_shaped h \<Longrightarrow> truthy (py_or h (PList [])) \<Longrightarrow>
   \<exists>flds rest. py_or h (PList []) = PList (PDict flds # rest)"
  by (cases h rule: history_shaped.cases) (simp_all add: py_or_def)

lemma funding_rate_data_built:
  assumes "object_shaped (raw_get raw ''premium_index'')"
    and "history_shaped (raw_get raw ''funding_rate'')"
  shows "\<exists>data. funding_rate_data self raw now = Inr data"
proof -
  from premium_object [OF assms(1)] obtain prem
    where prem: "py_or (raw_get raw ''premium_index'') (PDict []) = PDict prem" by blast
  show ?thesis
  proof (cases "truthy (py_or (raw_get raw ''funding_rate'') (PList []))")
    case True
    from history_first [OF assms(2) True] obtain flds rest
      where "py_or (raw_get raw ''funding_rate'') (PList []) = PList (PDict flds # rest)" by blast
    with prem show ?thesis by (simp add: funding_rate_data_def Let_def)
  next
    case False
    with prem show ?thesis by (simp add: funding_rate_data_def Let_def)
  qed
qed

lemma price_data_no_orderbook:
  assumes "raw_get raw ''orderbook'' = PNone"
    and "raw_get raw ''kline'' = PList (PList candle # later)"
    and "4 < length candle"
    and "float_of lib (candle ! 4) = Inr close_price"
  shows "price_data lib self raw now =
           Inr (PDict [(''timestamp'', PNum (of_int now)), (''price'', PNum close_price),
                       (''mid_price'', PNum 0)])"
  using assms
  by (simp add: price_data_def close_price_of_def py_or_def no_orderbook Let_def)

lemma spread_data_no_orderbook:
  assumes "raw_get raw ''orderbook'' = PNone"
  shows "spread_data lib self raw now =
           Inr (PDict [(''symbol'', PStr (symbol self)), (''spread'', PNum 0),
                       (''timestamp'', PNum (of_int now))])"
  using assms by (simp add: spread_data_def py_or_def no_orderbook Let_def)

lemma volume_data_ticker:
  assumes "raw_get raw ''ticker'' = PDict tk"
  shows "volume_data self raw now =
           Inr (PDict [(''symbol'', PStr (symbol self)),
                       (''volume'', case map_of tk ''volume'' of Some x \<Rightarrow> x | None \<Rightarrow> PStr ''''),
                       (''quoteVolume'',
                          case map_of tk ''quoteVolume'' of Some x \<Rightarrow> x | None \<Rightarrow> PStr ''''),
                       (''timestamp'', PNum (of_int now))])"
  using assms by (cases tk) (simp_all add: volume_data_def py_or_def Let_def)

text \<open>
  C1. Whatever the session does, \<open>fetch_all_data\<close> returns (it does not raise) a bundle
  with exactly one entry for each of the seven operations, in the order of the \<open>tasks\<close>
  dict; the entry of an operation that raised is \<open>None\<close>, the entry of one that returned
  is its payload.
\<close>

theorem C1_bundle_complete:
  "\<exists>results. fetch_all_data self sess = Inr results
     \<and> map fst results = [''ticker'', ''orderbook'', ''kline'', ''basis'',
                           ''open_interest_hist'', ''funding_rate'', ''premium_index'']
     \<and> results = map (\<lambda>task. (fst task, payload_or_None (snd task))) (tasks self sess)
     \<and> payload_or_None (Inl e) = PNone
     \<and> payload_or_None (Inr v) = v"
  by (simp add: fetch_all_data_def gather_def tasks_def record_result_outcome
      payload_or_None_def)

text \<open>
  With three of the seven operations failing, each in its own way, the bundle still has
  the seven entries, \<open>None\<close> for the three.
\<close>

theorem C1_bundle_complete_witness:
  "fetch_all_data (PAXGMonitor ''out'' 2) outage =
     Inr [(''ticker'', PList []), (''orderbook'', PNone), (''kline'', PList []),
          (''basis'', PNone), (''open_interest_hist'', PList []),
          (''funding_rate'', PList []), (''premium_index'', PNone)]"
  using C1_bundle_complete [of "PAXGMonitor ''out'' 2" outage]
  by (simp add: fetch_all_data_def gather_def tasks_def record_result_def PAXGMonitor_def
      get_futures_ticker_def get_futures_orderbook_def get_futures_kline_def get_basis_def
      get_open_interest_hist_def get_funding_rate_def get_premium_index_def request_def
      raise_for_status_def outage_def FUTURES_BASE_URL_def)

text \<open>
  C6, as the code has it. Whatever the outcome of \<open>process_and_write\<close>, every record it
  appended to the price, fundingRate, volume_24h and spread series carries the cycle
  timestamp, the one clock reading of the call. A record appended to the basisRate or
  the openinterest series carries the timestamp field of the first element of the basis
  or open-interest payload when that element has one, and the cycle timestamp otherwise.
\<close>

theorem C6_record_timestamps:
  assumes "process_and_write lib (PAXGMonitor dir oz) raw now fs = (r, fs')"
  shows "(\<forall>k \<in> {''price'', ''fundingRate'', ''volume_24h'', ''spread''}.
            \<forall>data \<in> set (appended fs fs' (series_path dir k)).
              dict_get data ''timestamp'' PNone = Inr (PNum (of_int now)))
       \<and> (\<forall>data \<in> set (appended fs fs' (series_path dir ''basisRate'')).
              dict_get data ''timestamp'' PNone = Inr (payload_timestamp raw ''basis'' now))
       \<and> (\<forall>data \<in> set (appended fs fs' (series_path dir ''openinterest'')).
              dict_get data ''timestamp'' PNone
                = Inr (payload_timestamp raw ''open_interest_hist'' now))"
proof -
  let ?self = "PAXGMonitor dir oz"
  let ?steps = "cycle_steps lib ?self raw now"
  have run: "run_writers ?self ?steps fs = (r, fs')"
    using assms by (simp add: process_and_write_steps)
  have "\<forall>step \<in> set ?steps.
          appended fs fs' (series_path dir (fst step)) = []
        \<or> (\<exists>data. snd step = Inr data \<and> appended fs fs' (series_path dir (fst step)) = [data])"
    using run_writers_effect [OF run] by (simp add: cycle_steps_keys distinct_series)
  then have eff: "appended fs fs' (series_path dir k) = []
        \<or> (\<exists>data. built = Inr data \<and> appended fs fs' (series_path dir k) = [data])"
    if "(k, built) \<in> set ?steps" for k built
    using that by fastforce
  have price: "\<forall>data \<in> set (appended fs fs' (series_path dir ''price'')).
                 dict_get data ''timestamp'' PNone = Inr (PNum (of_int now))"
    using eff [of "''price''" "price_data lib ?self raw now"] price_data_timestamp
    by (fastforce simp: cycle_steps_def)
  have funding: "\<forall>data \<in> set (appended fs fs' (series_path dir ''fundingRate'')).
                 dict_get data ''timestamp'' PNone = Inr (PNum (of_int now))"
    using eff [of "''fundingRate''" "funding_rate_data ?self raw now"] funding_rate_data_timestamp
    by (fastforce simp: cycle_steps_def)
  have volume: "\<forall>data \<in> set (appended fs fs' (series_path dir ''volume_24h'')).
                 dict_get data ''timestamp'' PNone = Inr (PNum (of_int now))"
    using eff [of "''volume_24h''" "volume_data ?self raw now"] volume_data_timestamp
    by (fastforce simp: cycle_steps_def)
  have spread: "\<forall>data \<in> set (appended fs fs' (series_path dir ''spread'')).
                 dict_get data ''timestamp'' PNone = Inr (PNum (of_int now))"
    using eff [of "''spread''" "spread_data lib ?self raw now"] spread_data_timestamp
    by (fastforce simp: cycle_steps_def)
  have basis: "\<forall>data \<in> set (appended fs fs' (series_path dir ''basisRate'')).
                 dict_get data ''timestamp'' PNone = Inr (payload_timestamp raw ''basis'' now)"
    using eff [of "''basisRate''" "basis_rate_data ?self raw now"] basis_rate_data_timestamp
    by (fastforce simp: cycle_steps_def)
  have oi: "\<forall>data \<in> set (appended fs fs' (series_path dir ''openinterest'')).
                 dict_get data ''timestamp'' PNone
                   = Inr (payload_timestamp raw ''open_interest_hist'' now)"
    using eff [of "''openinterest''" "open_interest_data ?self raw now"]
      open_interest_data_timestamp
    by (fastforce simp: cycle_steps_def)
  from price funding volume spread basis oi show ?thesis
    by blast
qed

text \<open>
  On the sample cycle at clock reading 1700000000000: the open-interest record carries
  the payload's 1699999800000, the funding-rate record the clock reading.
\<close>

theorem C6_record_timestamps_witness:
  "payload_timestamp sample_cycle ''basis'' 1700000000000 = PNum 1699999800000
   \<and> appended empty_store
         (snd (process_and_write plain_lib (PAXGMonitor ''out'' 2) sample_cycle 1700000000000
                 empty_store)) (series_path ''out'' ''openinterest'')
       = [PDict [(''symbol'', PStr ''PAXGUSDT''), (''sumOpenInterest'', PStr ''5000.1''),
                 (''sumOpenInterestValue'', PStr ''13252500.0''),
                 (''timestamp'', PNum 1699999800000)]]
   \<and> appended empty_store
         (snd (process_and_write plain_lib (PAXGMonitor ''out'' 2) sample_cycle 1700000000000
                 empty_store)) (series_path ''out'' ''fundingRate'')
       = [PDict [(''symbol'', PStr ''PAXGUSDT''), (''fundingRate'', PStr ''0.00012''),
                 (''timestamp'', PNum 1700000000000)]]"
  using C6_record_timestamps [of plain_lib "''out''" 2 sample_cycle 1700000000000 empty_store
      "fst (process_and_write plain_lib (PAXGMonitor ''out'' 2) sample_cycle 1700000000000
              empty_store)"
      "snd (process_and_write plain_lib (PAXGMonitor ''out'' 2) sample_cycle 1700000000000
              empty_store)"]
  by (simp add: sample_run appended_def)

text \<open>
  The claim that all records of a cycle share one timestamp fails on the sample cycle:
  the cycle completes, its price record carries the clock reading 1700000000000 and its
  basisRate record the 1699999800000 of the basis payload.
\<close>

theorem C6_shared_timestamp_counterexample:
  "fst (process_and_write plain_lib (PAXGMonitor ''out'' 2) sample_cycle 1700000000000
          empty_store) = None
   \<and> contents (snd (process_and_write plain_lib (PAXGMonitor ''out'' 2) sample_cycle
          1700000000000 empty_store)) ''out/price.jsonl''
       = [PDict [(''timestamp'', PNum 1700000000000), (''price'', PNum (5301 / 2)),
                 (''mid_price'', PNum 0)]]
   \<and> contents (snd (process_and_write plain_lib (PAXGMonitor ''out'' 2) sample_cycle
          1700000000000 empty_store)) ''out/basisRate.jsonl''
       = [PDict [(''indexPrice'', PStr ''2649.9''), (''contractType'', PStr ''PERPETUAL''),
                 (''basisRate'', PStr ''0.0002''), (''futuresPrice'', PStr ''2650.5''),
                 (''annualizedBasisRate'', PStr ''''), (''basis'', PStr ''0.6''),
                 (''pair'', PStr ''PAXGUSDT''), (''timestamp'', PNum 1699999800000)]]"
  by (simp add: sample_run)

text \<open>
  C7, as the code has it. \<open>process_and_write\<close> has no handler around a writer: when
  the path of a series cannot be appended to, an exception leaves the method, and neither
  that series nor any series after it in the writing order receives a record.
\<close>

theorem C7_append_failure_escapes:
  assumes "k \<in> set series"
    and "\<not> writable fs (series_path dir k)"
    and "process_and_write lib (PAXGMonitor dir oz) raw now fs = (r, fs')"
  shows "r \<noteq> None
       \<and> (\<forall>k' \<in> set (dropWhile (\<lambda>x. x \<noteq> k) series).
             contents fs' (series_path dir k') = contents fs (series_path dir k'))"
proof -
  let ?steps = "cycle_steps lib (PAXGMonitor dir oz) raw now"
  have run: "run_writers (PAXGMonitor dir oz) ?steps fs = (r, fs')"
    using assms(3) by (simp add: process_and_write_steps)
  have keys: "map fst ?steps = series" by (rule cycle_steps_keys)
  show ?thesis
    using run_writers_unwritable [OF run, of k] assms(1,2) distinct_series
    unfolding keys by simp
qed

text \<open>
  With the open-interest file failing, the cycle ends in \<open>OSError\<close> and the funding-rate
  file, next in the order, stays empty.
\<close>

theorem C7_append_failure_escapes_witness:
  "fst (process_and_write plain_lib (PAXGMonitor ''out'' 2) sample_cycle 1700000000000
          (store_failing_at ''out/openinterest.jsonl'')) = Some OSError
   \<and> contents (snd (process_and_write plain_lib (PAXGMonitor ''out'' 2) sample_cycle
          1700000000000 (store_failing_at ''out/openinterest.jsonl''))) ''out/fundingRate.jsonl''
       = []"
  using C7_append_failure_escapes [of "''openinterest''"
      "store_failing_at ''out/openinterest.jsonl''" "''out''" plain_lib 2 sample_cycle
      1700000000000
      "fst (process_and_write plain_lib (PAXGMonitor ''out'' 2) sample_cycle 1700000000000
              (store_failing_at ''out/openinterest.jsonl''))"
      "snd (process_and_write plain_lib (PAXGMonitor ''out'' 2) sample_cycle 1700000000000
              (store_failing_at ''out/openinterest.jsonl''))"]
  by (simp add: sample_run)

text \<open>
  The claim that an append failure never prevents the writes to the sibling series fails
  when the price file cannot be appended to: the spread file is writable and its record
  can be built, yet the cycle ends in \<open>OSError\<close> with the store as it was, the spread
  file empty.
\<close>

theorem C7_sibling_writes_counterexample:
  "writable (store_failing_at ''out/price.jsonl'') ''out/spread.jsonl''
   \<and> spread_data plain_lib (PAXGMonitor ''out'' 2) sample_cycle 1700000000000
       = Inr (PDict [(''symbol'', PStr ''PAXGUSDT''), (''spread'', PNum 0),
                     (''timestamp'', PNum 1700000000000)])
   \<and> process_and_write plain_lib (PAXGMonitor ''out'' 2) sample_cycle 1700000000000
         (store_failing_at ''out/price.jsonl'')
       = (Some OSError, store_failing_at ''out/price.jsonl'')
   \<and> contents (store_failing_at ''out/price.jsonl'') ''out/spread.jsonl'' = []"
  by (simp add: sample_run)

text \<open>
  C8, as the code has it. Let \<open>v\<close> be the \<open>lastFundingRate\<close> of the premium-index payload,
  the empty string when the field is missing or the payload is absent. When \<open>v\<close> is true
  in Python's sense (a non-empty string is), the \<open>fundingRate\<close> field is \<open>v\<close>. When \<open>v\<close>
  is false (the empty string, but also \<open>None\<close>, zero, \<open>False\<close>, an empty list or dict)
  and the funding-rate history starts with an entry, the field is that entry's
  \<open>fundingRate\<close> (the empty string if the entry lacks it). When \<open>v\<close> is false and the
  history is absent or empty, the field stays \<open>v\<close>.
\<close>

theorem C8_funding_rate_fallback:
  assumes "py_or (raw_get raw ''premium_index'') (PDict []) = PDict prem"
    and "v = (case map_of prem ''lastFundingRate'' of Some x \<Rightarrow> x | None \<Rightarrow> PStr '''')"
  shows "(truthy v \<longrightarrow>
            funding_rate_data self raw now =
              Inr (PDict [(''symbol'', PStr (symbol self)), (''fundingRate'', v),
                          (''timestamp'', PNum (of_int now))]))
       \<and> (\<not> truthy v \<and> raw_get raw ''funding_rate'' = PList (PDict entry # others) \<longrightarrow>
            funding_rate_data self raw now =
              Inr (PDict [(''symbol'', PStr (symbol self)),
                          (''fundingRate'',
                             case map_of entry ''fundingRate'' of Some x \<Rightarrow> x | None \<Rightarrow> PStr ''''),
                          (''timestamp'', PNum (of_int now))]))
       \<and> (\<not> truthy v \<and> \<not> truthy (raw_get raw ''funding_rate'') \<longrightarrow>
            funding_rate_data self raw now =
              Inr (PDict [(''symbol'', PStr (symbol self)), (''fundingRate'', v),
                          (''timestamp'', PNum (of_int now))]))"
  using assms by (simp add: funding_rate_data_def Let_def py_or_def)

text \<open>An empty \<open>lastFundingRate\<close> and a history of one entry: the entry's rate is taken.\<close>

theorem C8_funding_rate_fallback_witness:
  "funding_rate_data (PAXGMonitor ''out'' 2)
     [(''ticker'', PNone), (''orderbook'', PNone), (''kline'', PNone), (''basis'', PNone),
      (''open_interest_hist'', PNone),
      (''funding_rate'', PList [PDict [(''fundingRate'', PStr ''0.0001'')]]),
      (''premium_index'', PDict [(''markPrice'', PStr ''2650.4''),
                                 (''lastFundingRate'', PStr '''')])]
     1700000000000
   = Inr (PDict [(''symbol'', PStr ''PAXGUSDT''), (''fundingRate'', PStr ''0.0001''),
                 (''timestamp'', PNum 1700000000000)])"
  using C8_funding_rate_fallback [where raw =
      "[(''ticker'', PNone), (''orderbook'', PNone), (''kline'', PNone), (''basis'', PNone),
        (''open_interest_hist'', PNone),
        (''funding_rate'', PList [PDict [(''fundingRate'', PStr ''0.0001'')]]),
        (''premium_index'', PDict [(''markPrice'', PStr ''2650.4''),
                                   (''lastFundingRate'', PStr '''')])]"
      and prem = "[(''markPrice'', PStr ''2650.4''), (''lastFundingRate'', PStr '''')]"
      and v = "PStr ''''" and entry = "[(''fundingRate'', PStr ''0.0001'')]" and others = "[]"
      and self = "PAXGMonitor ''out'' 2" and now = 1700000000000]
  by (simp add: raw_get_def py_or_def)

text \<open>
  The claim that the fallback happens exactly when the premium-index value is the empty
  string fails for a premium-index payload whose \<open>lastFundingRate\<close> is null: the value
  is \<open>None\<close>, not the empty string, and the record takes the history's rate.
\<close>

theorem C8_null_triggers_fallback_counterexample:
  "dict_get (PDict [(''markPrice'', PStr ''2650.4''), (''lastFundingRate'', PNone)])
     ''lastFundingRate'' (PStr '''') = Inr PNone
   \<and> PNone \<noteq> PStr ''''
   \<and> funding_rate_data (PAXGMonitor ''out'' 2)
       [(''ticker'', PNone), (''orderbook'', PNone), (''kline'', PNone), (''basis'', PNone),
        (''open_interest_hist'', PNone),
        (''funding_rate'', PList [PDict [(''fundingRate'', PStr ''0.0001'')]]),
        (''premium_index'', PDict [(''markPrice'', PStr ''2650.4''),
                                   (''lastFundingRate'', PNone)])]
       1700000000000
     = Inr (PDict [(''symbol'', PStr ''PAXGUSDT''), (''fundingRate'', PStr ''0.0001''),
                   (''timestamp'', PNum 1700000000000)])"
  by (simp add: funding_rate_data_def raw_get_def py_or_def)

text \<open>
  C9. In a cycle whose order-book fetch failed, whose kline payload has a first candle
  with a close price that converts to a number, whose ticker payload is an object, and
  whose other payloads are absent or of their usual shape, with all six files writable:
  \<open>process_and_write\<close> completes; the price record has the close price and mid price 0,
  the spread record has spread 0, and the volume record has the ticker's \<open>volume\<close> and
  \<open>quoteVolume\<close> (the empty string for a field the ticker lacks).
\<close>

theorem C9_orderbook_fetch_failed:
  assumes "raw_get raw ''orderbook'' = PNone"
    and "raw_get raw ''kline'' = PList (PList candle # later)"
    and "4 < length candle"
    and "float_of lib (candle ! 4) = Inr close_price"
    and "raw_get raw ''ticker'' = PDict tk"
    and "history_shaped (raw_get raw ''basis'')"
    and "history_shaped (raw_get raw ''open_interest_hist'')"
    and "history_shaped (raw_get raw ''funding_rate'')"
    and "object_shaped (raw_get raw ''premium_index'')"
    and "\<forall>k \<in> set series. writable fs (series_path dir k)"
  shows "\<exists>fs'. process_and_write lib (PAXGMonitor dir oz) raw now fs = (None, fs')
           \<and> appended fs fs' (series_path dir ''price'')
               = [PDict [(''timestamp'', PNum (of_int now)), (''price'', PNum close_price),
                         (''mid_price'', PNum 0)]]
           \<and> appended fs fs' (series_path dir ''spread'')
               = [PDict [(''symbol'', PStr ''PAXGUSDT''), (''spread'', PNum 0),
                         (''timestamp'', PNum (of_int now))]]
           \<and> appended fs fs' (series_path dir ''volume_24h'')
               = [PDict [(''symbol'', PStr ''PAXGUSDT''),
                         (''volume'',
                            case map_of tk ''volume'' of Some x \<Rightarrow> x | None \<Rightarrow> PStr ''''),
                         (''quoteVolume'',
                            case map_of tk ''quoteVolume'' of Some x \<Rightarrow> x | None \<Rightarrow> PStr ''''),
                         (''timestamp'', PNum (of_int now))]]"
proof -
  let ?self = "PAXGMonitor dir oz"
  let ?steps = "cycle_steps lib ?self raw now"
  note price = price_data_no_orderbook [OF assms(1-4), of ?self now]
  note spread = spread_data_no_orderbook [OF assms(1), of lib ?self now]
  note volume = volume_data_ticker [OF assms(5), of ?self now]
  have built: "\<forall>step \<in> set ?steps. \<exists>data. snd step = Inr data"
    using price spread volume
      basis_rate_data_built [OF assms(6), of ?self now]
      open_interest_data_built [OF assms(7), of ?self now]
      funding_rate_data_built [OF assms(9) assms(8), of ?self now]
    by (simp add: cycle_steps_def)
  have keys: "map fst ?steps = series" by (rule cycle_steps_keys)
  obtain fs' where run: "run_writers ?self ?steps fs = (None, fs')"
    using run_writers_succeeds [OF built, of fs dir oz] assms(10) unfolding keys by auto
  have all: "\<forall>step \<in> set ?steps.
               \<exists>data. snd step = Inr data \<and> appended fs fs' (series_path dir (fst step)) = [data]"
    using run_writers_complete [OF run] distinct_series unfolding keys by simp
  have "appended fs fs' (series_path dir ''price'')
          = [PDict [(''timestamp'', PNum (of_int now)), (''price'', PNum close_price),
                    (''mid_price'', PNum 0)]]"
    using all price by (simp add: cycle_steps_def)
  moreover have "appended fs fs' (series_path dir ''spread'')
          = [PDict [(''symbol'', PStr ''PAXGUSDT''), (''spread'', PNum 0),
                    (''timestamp'', PNum (of_int now))]]"
    using all spread by (simp add: cycle_steps_def)
  moreover have "appended fs fs' (series_path dir ''volume_24h'')
          = [PDict [(''symbol'', PStr ''PAXGUSDT''),
                    (''volume'', case map_of tk ''volume'' of Some x \<Rightarrow> x | None \<Rightarrow> PStr ''''),
                    (''quoteVolume'',
                       case map_of tk ''quoteVolume'' of Some x \<Rightarrow> x | None \<Rightarrow> PStr ''''),
                    (''timestamp'', PNum (of_int now))]]"
    using all volume by (simp add: cycle_steps_def)
  ultimately show ?thesis
    using run by (simp add: process_and_write_steps)
qed

text \<open>The sample cycle, whose close price is the string 2650.5.\<close>

theorem C9_orderbook_fetch_failed_witness:
  "raw_get sample_cycle ''orderbook'' = PNone
   \<and> (\<exists>fs'. process_and_write plain_lib (PAXGMonitor ''out'' 2) sample_cycle 1700000000000
               empty_store = (None, fs')
         \<and> appended empty_store fs' (series_path ''out'' ''price'')
             = [PDict [(''timestamp'', PNum 1700000000000), (''price'', PNum (5301 / 2)),
                       (''mid_price'', PNum 0)]]
         \<and> appended empty_store fs' (series_path ''out'' ''spread'')
             = [PDict [(''symbol'', PStr ''PAXGUSDT''), (''spread'', PNum 0),
                       (''timestamp'', PNum 1700000000000)]]
         \<and> appended empty_store fs' (series_path ''out'' ''volume_24h'')
             = [PDict [(''symbol'', PStr ''PAXGUSDT''), (''volume'', PStr ''1200.5''),
                       (''quoteVolume'', PStr ''3181925.25''),
                       (''timestamp'', PNum 1700000000000)]])"
  using C9_orderbook_fetch_failed [where raw = sample_cycle and lib = plain_lib
      and candle = "[PNum 1699999940000, PStr ''2650.1'', PStr ''2651.0'', PStr ''2649.8'',
                     PStr ''2650.5'', PStr ''12.5'']"
      and later = "[]" and close_price = "5301 / 2"
      and tk = "[(''symbol'', PStr ''PAXGUSDT''), (''lastPrice'', PStr ''2650.5''),
                 (''volume'', PStr ''1200.5''), (''quoteVolume'', PStr ''3181925.25'')]"
      and fs = empty_store and dir = "''out''" and oz = 2 and now = 1700000000000]
  by (simp add: sample_cycle_def raw_get_def plain_lib_def plain_decimal_def is_digit_def
      empty_store_def)

end
